theory Spec2Isabelle
  imports Main "HOL-Library.Sublist"
begin

section \<open>extract\_pdf.py: page text extraction and its command-line entry point\<close>

subsection \<open>Text, exceptions and the decoding library\<close>

text \<open>
  Python text is modelled as \<^typ>\<open>string\<close>: a character outside ASCII stands as the bytes
  of its UTF-8 encoding, and a lone surrogate, which a Python string can hold, as the
  three bytes the same scheme gives its code point. Concatenation of Python strings is
  concatenation of these byte strings.

  \<open>py_exception\<close> is an instance of Python's class \<open>Exception\<close>, the class the handler of
  \<open>extract_text_from_pdf\<close> names and the one a library reports its failures with; \<open>str\<close>
  is the text \<open>str(e)\<close> gives. Interruptions of the interpreter that are not instances
  of \<open>Exception\<close> (a keyboard interrupt) are no results of a library call and lie
  outside the model.
\<close>

datatype py_exception = Exception string

fun str :: "py_exception \<Rightarrow> string" where
  "str (Exception msg) = msg"

text \<open>
  The PDF library (PyPDF2) is not part of the repository. The program uses three of its
  operations, which are the parameters of the model: \<open>PdfReader(path)\<close> opens a document
  or raises, \<open>reader.pages\<close> is the sequence of its pages in document order, and
  \<open>page.extract_text()\<close> gives the text of a page or raises. \<open>'r\<close> is the type of
  readers and \<open>'p\<close> the type of pages.
\<close>

record ('r, 'p) pdf_library =
  PdfReader :: "string \<Rightarrow> py_exception + 'r"
  pages :: "'r \<Rightarrow> 'p list"
  extract_text :: "'p \<Rightarrow> py_exception + string"

subsection \<open>The extractor\<close>

text \<open>
  The loop \<open>for page in reader.pages: text += page.extract_text() + "\n"\<close>, with the
  accumulator \<open>text\<close> passed along. An exception raised by \<open>extract_text\<close> leaves the
  loop at once (\<open>Inl\<close>).
\<close>

fun extract_pages :: "('p \<Rightarrow> py_exception + string) \<Rightarrow> 'p list \<Rightarrow> string \<Rightarrow> py_exception + string" where
  "extract_pages ext [] text = Inr text"
| "extract_pages ext (page # rest) text =
     (case ext page of
        Inl e \<Rightarrow> Inl e
      | Inr t \<Rightarrow> extract_pages ext rest (text @ (t @ ''\<newline>'')))"

text \<open>The body of the \<open>try\<close> block: open the reader, start from the empty text, run the loop.\<close>

definition try_block :: "('r, 'p) pdf_library \<Rightarrow> string \<Rightarrow> py_exception + string" where
  "try_block lib pdf_path =
     (case PdfReader lib pdf_path of
        Inl e \<Rightarrow> Inl e
      | Inr reader \<Rightarrow> extract_pages (extract_text lib) (pages lib reader) '''')"

text \<open>
  \<open>extract_text_from_pdf\<close>: the \<open>try\<close> block under \<open>except Exception as e\<close>, whose
  handler returns \<open>f"Erro ao ler PDF: {str(e)}"\<close>. The result is \<open>Inr s\<close> when the function
  returns \<open>s\<close> and \<open>Inl e\<close> when it raises \<open>e\<close> to its caller.
\<close>

definition extract_text_from_pdf :: "('r, 'p) pdf_library \<Rightarrow> string \<Rightarrow> py_exception + string" where
  "extract_text_from_pdf lib pdf_path =
     (case try_block lib pdf_path of
        Inr text \<Rightarrow> Inr text
      | Inl e \<Rightarrow> Inr (''Erro ao ler PDF: '' @ str e))"

subsection \<open>The entry point\<close>

text \<open>
  A run of the script is observed through what it wrote to standard output and its exit
  status. \<open>extractor_calls\<close> is a ghost field: the arguments of the calls of
  \<open>extract_text_from_pdf\<close> the run made, in order.
\<close>

record run =
  stdout :: string
  exit_status :: nat
  extractor_calls :: "string list"

text \<open>
  Standard output is a text stream: \<open>print(s)\<close> encodes \<open>s\<close> before it writes anything and
  raises \<open>UnicodeEncodeError\<close> when the stream cannot encode it (a lone surrogate under
  the strict error handler, a letter outside the stream's character set). What the
  stream encodes is a parameter of the model, \<open>codec\<close>. Text that is ASCII throughout
  (\<open>isascii\<close>, as Python's \<open>str.isascii\<close>) is encoded by every stream.
\<close>

definition isascii :: "string \<Rightarrow> bool" where
  "isascii s = list_all (\<lambda>c. \<not> digit7 c) s"

definition encodable :: "(string \<Rightarrow> bool) \<Rightarrow> string \<Rightarrow> bool" where
  "encodable codec s = (isascii s \<or> codec s)"

text \<open>
  \<open>print(s)\<close> on the output written so far: \<open>s\<close> and a newline are appended, or the
  exception is raised and the output stays as it was.
\<close>

definition print :: "(string \<Rightarrow> bool) \<Rightarrow> string \<Rightarrow> string \<Rightarrow> py_exception + string" where
  "print codec s out =
     (if encodable codec s then Inr (out @ s @ ''\<newline>'')
      else Inl (Exception ''UnicodeEncodeError''))"

text \<open>
  The two ways the script ends. \<open>sys_exit n out calls\<close> is \<open>sys.exit(n)\<close>, and also
  falling off the end of the script with \<open>n = 0\<close>. \<open>uncaught e out calls\<close> is an exception
  that nobody catches: the interpreter writes the traceback to standard error, leaves
  standard output as it was, and the exit status is 1.
\<close>

definition sys_exit :: "nat \<Rightarrow> string \<Rightarrow> string list \<Rightarrow> run" where
  "sys_exit n out calls = \<lparr>stdout = out, exit_status = n, extractor_calls = calls\<rparr>"

definition uncaught :: "py_exception \<Rightarrow> string \<Rightarrow> string list \<Rightarrow> run" where
  "uncaught e out calls = \<lparr>stdout = out, exit_status = 1, extractor_calls = calls\<rparr>"

text \<open>
  The block under \<open>if __name__ == "__main__"\<close>. \<open>argv\<close> is \<open>sys.argv\<close> (the script's
  name first) and \<open>path_exists\<close> is \<open>os.path.exists\<close>. None of the three calls of
  \<open>print\<close> stands under a handler. In \<open>n\<tilde>ao\<close> the letter a with tilde is the two
  bytes C3 A3.
\<close>

definition main ::
  "(string \<Rightarrow> bool) \<Rightarrow> (string \<Rightarrow> bool) \<Rightarrow> ('r, 'p) pdf_library \<Rightarrow> string list \<Rightarrow> run" where
  "main codec path_exists lib argv =
     (if length argv < 2 then
        (case print codec ''Uso: python extract_pdf.py <caminho_do_pdf>'' '''' of
           Inl e \<Rightarrow> uncaught e '''' []
         | Inr out \<Rightarrow> sys_exit 1 out [])
      else
        let pdf_path = argv ! 1 in
        if \<not> path_exists pdf_path then
          (case print codec (''Arquivo n'' @ [CHR 0xC3, CHR 0xA3] @ ''o encontrado: '' @ pdf_path) '''' of
             Inl e \<Rightarrow> uncaught e '''' []
           | Inr out \<Rightarrow> sys_exit 1 out [])
        else
          (case extract_text_from_pdf lib pdf_path of
             Inl e \<Rightarrow> uncaught e '''' [pdf_path]
           | Inr text \<Rightarrow>
               (case print codec text '''' of
                  Inl e \<Rightarrow> uncaught e '''' [pdf_path]
                | Inr out \<Rightarrow> sys_exit 0 out [pdf_path])))"

subsection \<open>Documents, a file system and an output stream for tests\<close>

text \<open>
  A library over documents held in memory: a reader is the list of its pages, and a page
  is what extracting its text gives. \<open>fake_library docs\<close> opens the paths that \<open>docs\<close>
  lists and fails on every other path. \<open>fake_exists files\<close> is a file system holding
  exactly \<open>files\<close>.
\<close>

definition fake_library ::
  "(string \<times> (py_exception + string) list) list \<Rightarrow>
   ((py_exception + string) list, py_exception + string) pdf_library" where
  "fake_library docs =
     \<lparr>PdfReader = (\<lambda>path. case map_of docs path of
                      None \<Rightarrow> Inl (Exception ''EOF marker not found'')
                    | Some d \<Rightarrow> Inr d),
      pages = (\<lambda>reader. reader),
      extract_text = (\<lambda>page. page)\<rparr>"

definition fake_exists :: "string list \<Rightarrow> string \<Rightarrow> bool" where
  "fake_exists files path = (path \<in> set files)"

definition sample_docs :: "(string \<times> (py_exception + string) list) list" where
  "sample_docs =
     [(''lei.pdf'', [Inr ''Artigo 1'', Inr '''', Inr ''Artigo 2'']),
      (''imagem.pdf'', [Inr '''']),
      (''vazio.pdf'', []),
      (''corrompido.pdf'',
         [Inr ''Artigo 1'', Inl (Exception ''stream truncado''), Inr ''Artigo 3''])]"

definition sample_files :: "string list" where
  "sample_files = [''lei.pdf'', ''imagem.pdf'', ''vazio.pdf'', ''corrompido.pdf'', ''notas.txt'']"

text \<open>
  \<open>utf8_strict\<close> is a UTF-8 stream with the strict error handler: it encodes every string
  but one holding a surrogate code point. In the byte form used here a surrogate
  (U+D800 to U+DFFF) is the byte ED followed by a byte from A0 to BF, the continuation
  bytes with bit 5 set, and no other character has that form.
\<close>

fun utf8_strict :: "string \<Rightarrow> bool" where
  "utf8_strict (a # b # rest) = (\<not> (a = CHR 0xED \<and> digit5 b) \<and> utf8_strict (b # rest))"
| "utf8_strict [a] = True"
| "utf8_strict [] = True"

text \<open>
  \<open>surrogate_docs\<close>: a one-page document whose text is the lone surrogate U+D800, as a
  library gives it for a broken character map. \<open>surrogate_path\<close>: the name Python gives a
  command-line argument whose bytes are FF and \<open>.pdf\<close>, the byte FF read as U+DCFF.
\<close>

definition surrogate_docs :: "(string \<times> (py_exception + string) list) list" where
  "surrogate_docs = [(''selo.pdf'', [Inr [CHR 0xED, CHR 0xA0, CHR 0x80]])]"

definition surrogate_path :: string where
  "surrogate_path = [CHR 0xED, CHR 0xB3, CHR 0xBF] @ ''.pdf''"

section \<open>Properties of the loop\<close>

text \<open>When every page yields a text, the loop appends each text and a newline, in order.\<close>

lemma extract_pages_all_ok:
  "map ext ps = map Inr ts \<Longrightarrow>
   extract_pages ext ps acc = Inr (acc @ concat (map (\<lambda>t. t @ ''\<newline>'') ts))"
proof (induction ps arbitrary: ts acc)
  case Nil
  then show ?case by simp
next
  case (Cons p ps)
  then obtain t ts' where ts: "ts = t # ts'" and p: "ext p = Inr t" and rest: "map ext ps = map Inr ts'"
    by (cases ts) auto
  from Cons.IH [OF rest] show ?case
    by (simp add: ts p)
qed

text \<open>The first page that fails ends the loop with its exception, whatever was accumulated.\<close>

lemma extract_pages_first_failure:
  "map ext earlier = map Inr ts \<Longrightarrow> ext page = Inl e \<Longrightarrow>
   extract_pages ext (earlier @ page # later) acc = Inl e"
proof (induction earlier arbitrary: ts acc)
  case Nil
  then show ?case by simp
next
  case (Cons p ps)
  then obtain t ts' where p: "ext p = Inr t" and rest: "map ext ps = map Inr ts'"
    by (cases ts) auto
  from Cons.IH [OF rest Cons.prems(2)] show ?case
    by (simp add: p)
qed

text \<open>The loop raises only what some page raised, and raises as soon as one page does.\<close>

lemma extract_pages_raises_from_page:
  "extract_pages ext ps acc = Inl e \<Longrightarrow> \<exists>page\<in>set ps. ext page = Inl e"
  by (induction ps arbitrary: acc) (auto split: sum.splits)

lemma extract_pages_failing_page:
  "page \<in> set ps \<Longrightarrow> ext page = Inl e' \<Longrightarrow> \<exists>e. extract_pages ext ps acc = Inl e"
  by (induction ps arbitrary: acc) (auto split: sum.splits)

text \<open>The loop looks at nothing but the results of the pages it is given.\<close>

lemma extract_pages_cong:
  "(\<And>page. page \<in> set ps \<Longrightarrow> ext1 page = ext2 page) \<Longrightarrow>
   extract_pages ext1 ps acc = extract_pages ext2 ps acc"
  by (induction ps arbitrary: acc) (auto split: sum.splits)

text \<open>The handler turns every exception of the \<open>try\<close> block into a returned string.\<close>

lemma extract_text_from_pdf_returns:
  "\<exists>s. extract_text_from_pdf lib pdf_path = Inr s"
  by (simp add: extract_text_from_pdf_def split: sum.splits)

lemma try_block_page_failure:
  assumes "PdfReader lib pdf_path = Inr reader"
    and "pages lib reader = earlier @ page # later"
    and "map (extract_text lib) earlier = map Inr ts"
    and "extract_text lib page = Inl e"
  shows "try_block lib pdf_path = Inl e"
  using assms extract_pages_first_failure [of "extract_text lib" earlier ts page e later "''''"]
  by (simp add: try_block_def)

section \<open>The extractor\<close>

text \<open>
  C1. When the library opens the document and its pages, in document order, yield the
  texts \<open>ts\<close>, \<open>extract_text_from_pdf\<close> returns the texts in that order, each followed by a
  newline, the last one too. A single page with the empty text gives one newline.
\<close>

theorem extract_text_from_pdf_concat:
  assumes "PdfReader lib pdf_path = Inr reader"
    and "map (extract_text lib) (pages lib reader) = map Inr ts"
  shows "extract_text_from_pdf lib pdf_path = Inr (concat (map (\<lambda>t. t @ ''\<newline>'') ts)) \<and>
         (ts = [''''] \<longrightarrow> extract_text_from_pdf lib pdf_path = Inr ''\<newline>'')"
proof -
  have "try_block lib pdf_path = Inr (concat (map (\<lambda>t. t @ ''\<newline>'') ts))"
    using assms extract_pages_all_ok [of "extract_text lib" "pages lib reader" ts "''''"]
    by (simp add: try_block_def)
  then have "extract_text_from_pdf lib pdf_path = Inr (concat (map (\<lambda>t. t @ ''\<newline>'') ts))"
    by (simp add: extract_text_from_pdf_def)
  then show ?thesis by auto
qed

theorem extract_text_from_pdf_concat_witness:
  "extract_text_from_pdf (fake_library sample_docs) ''lei.pdf''
     = Inr ''Artigo 1\<newline>\<newline>Artigo 2\<newline>'' \<and>
   extract_text_from_pdf (fake_library sample_docs) ''imagem.pdf'' = Inr ''\<newline>''"
proof -
  let ?lib = "fake_library sample_docs"
  have o1: "PdfReader ?lib ''lei.pdf'' = Inr [Inr ''Artigo 1'', Inr '''', Inr ''Artigo 2'']"
    by (simp add: fake_library_def sample_docs_def)
  have p1: "map (extract_text ?lib) (pages ?lib [Inr ''Artigo 1'', Inr '''', Inr ''Artigo 2''])
              = map Inr [''Artigo 1'', '''', ''Artigo 2'']"
    by (simp add: fake_library_def)
  have o2: "PdfReader ?lib ''imagem.pdf'' = Inr [Inr '''']"
    by (simp add: fake_library_def sample_docs_def)
  have p2: "map (extract_text ?lib) (pages ?lib [Inr '''']) = map Inr ['''']"
    by (simp add: fake_library_def)
  from extract_text_from_pdf_concat [OF o1 p1] extract_text_from_pdf_concat [OF o2 p2]
  show ?thesis by simp
qed

text \<open>
  C10. A document that opens and has no page gives the empty string: no newline and no
  diagnostic.
\<close>

theorem extract_text_from_pdf_no_pages:
  assumes "PdfReader lib pdf_path = Inr reader"
    and "pages lib reader = []"
  shows "extract_text_from_pdf lib pdf_path = Inr ''''"
  using assms by (simp add: extract_text_from_pdf_def try_block_def)

theorem extract_text_from_pdf_no_pages_witness:
  "extract_text_from_pdf (fake_library sample_docs) ''vazio.pdf'' = Inr ''''"
proof -
  let ?lib = "fake_library sample_docs"
  have o: "PdfReader ?lib ''vazio.pdf'' = Inr []"
    by (simp add: fake_library_def sample_docs_def)
  have p: "pages ?lib [] = []"
    by (simp add: fake_library_def)
  from extract_text_from_pdf_no_pages [OF o p] show ?thesis .
qed

text \<open>
  C2. \<open>extract_text_from_pdf\<close> never raises to its caller: on every library and every
  path it returns a string. When opening the document fails with \<open>e\<close>, or when the
  extraction of some page fails, what it returns is the diagnostic string
  \<open>Erro ao ler PDF: \<close> followed by \<open>str(e)\<close> for a failure \<open>e\<close> the library raised on this
  document, and not the extracted text.
\<close>

theorem extract_text_from_pdf_never_raises:
  "(\<exists>s. extract_text_from_pdf lib pdf_path = Inr s) \<and>
   (\<forall>e. PdfReader lib pdf_path = Inl e \<longrightarrow>
      extract_text_from_pdf lib pdf_path = Inr (''Erro ao ler PDF: '' @ str e)) \<and>
   (\<forall>reader. PdfReader lib pdf_path = Inr reader \<longrightarrow>
      (\<exists>page\<in>set (pages lib reader). \<exists>e. extract_text lib page = Inl e) \<longrightarrow>
      (\<exists>page\<in>set (pages lib reader). \<exists>e. extract_text lib page = Inl e \<and>
         extract_text_from_pdf lib pdf_path = Inr (''Erro ao ler PDF: '' @ str e)))"
proof (intro conjI allI impI)
  show "\<exists>s. extract_text_from_pdf lib pdf_path = Inr s"
    by (rule extract_text_from_pdf_returns)
next
  fix e
  assume "PdfReader lib pdf_path = Inl e"
  then show "extract_text_from_pdf lib pdf_path = Inr (''Erro ao ler PDF: '' @ str e)"
    by (simp add: extract_text_from_pdf_def try_block_def)
next
  fix reader
  assume opened: "PdfReader lib pdf_path = Inr reader"
    and fails: "\<exists>page\<in>set (pages lib reader). \<exists>e. extract_text lib page = Inl e"
  from fails obtain page0 e0 where "page0 \<in> set (pages lib reader)" "extract_text lib page0 = Inl e0"
    by blast
  from extract_pages_failing_page [of page0 "pages lib reader" "extract_text lib" e0 "''''"] this
  obtain e where raised: "extract_pages (extract_text lib) (pages lib reader) '''' = Inl e"
    by blast
  from extract_pages_raises_from_page [of "extract_text lib" "pages lib reader" "''''" e] raised
  obtain page where page: "page \<in> set (pages lib reader)" "extract_text lib page = Inl e"
    by blast
  from opened raised have "extract_text_from_pdf lib pdf_path = Inr (''Erro ao ler PDF: '' @ str e)"
    by (simp add: extract_text_from_pdf_def try_block_def)
  with page show "\<exists>page\<in>set (pages lib reader). \<exists>e. extract_text lib page = Inl e \<and>
      extract_text_from_pdf lib pdf_path = Inr (''Erro ao ler PDF: '' @ str e)"
    by blast
qed

theorem extract_text_from_pdf_never_raises_witness:
  "PdfReader (fake_library sample_docs) ''notas.txt'' = Inl (Exception ''EOF marker not found'') \<and>
   extract_text_from_pdf (fake_library sample_docs) ''notas.txt''
     = Inr ''Erro ao ler PDF: EOF marker not found'' \<and>
   extract_text_from_pdf (fake_library sample_docs) ''corrompido.pdf''
     = Inr ''Erro ao ler PDF: stream truncado''"
proof -
  let ?lib = "fake_library sample_docs"
  let ?doc = "[Inr ''Artigo 1'', Inl (Exception ''stream truncado''), Inr ''Artigo 3'']"
  have o1: "PdfReader ?lib ''notas.txt'' = Inl (Exception ''EOF marker not found'')"
    by (simp add: fake_library_def sample_docs_def)
  have o2: "PdfReader ?lib ''corrompido.pdf'' = Inr ?doc"
    by (simp add: fake_library_def sample_docs_def)
  have f2: "\<exists>page\<in>set (pages ?lib ?doc). \<exists>e. extract_text ?lib page = Inl e"
    by (simp add: fake_library_def)
  from extract_text_from_pdf_never_raises [of ?lib "''notas.txt''"] o1
  have r1: "extract_text_from_pdf ?lib ''notas.txt'' = Inr ''Erro ao ler PDF: EOF marker not found''"
    by simp
  from extract_text_from_pdf_never_raises [of ?lib "''corrompido.pdf''"] o2 f2
  have "\<exists>page\<in>set (pages ?lib ?doc). \<exists>e. extract_text ?lib page = Inl e \<and>
          extract_text_from_pdf ?lib ''corrompido.pdf'' = Inr (''Erro ao ler PDF: '' @ str e)"
    by blast
  then have r2: "extract_text_from_pdf ?lib ''corrompido.pdf'' = Inr ''Erro ao ler PDF: stream truncado''"
    by (auto simp add: fake_library_def)
  from o1 r1 r2 show ?thesis by simp
qed

text \<open>
  C4. Extraction is all or nothing. When the library fails on a page after the pages
  before it gave their texts \<open>ts\<close>, the function returns the diagnostic string of that
  failure alone: the result is determined by the exception and holds none of \<open>ts\<close>.
\<close>

theorem extract_text_from_pdf_all_or_nothing:
  assumes "PdfReader lib pdf_path = Inr reader"
    and "pages lib reader = earlier @ page # later"
    and "map (extract_text lib) earlier = map Inr ts"
    and "extract_text lib page = Inl e"
  shows "extract_text_from_pdf lib pdf_path = Inr (''Erro ao ler PDF: '' @ str e)"
  using try_block_page_failure [OF assms] by (simp add: extract_text_from_pdf_def)

theorem extract_text_from_pdf_all_or_nothing_witness:
  "extract_text_from_pdf (fake_library sample_docs) ''corrompido.pdf''
     = Inr ''Erro ao ler PDF: stream truncado''"
proof -
  let ?lib = "fake_library sample_docs"
  let ?bad = "Inl (Exception ''stream truncado'') :: py_exception + string"
  have o: "PdfReader ?lib ''corrompido.pdf'' = Inr [Inr ''Artigo 1'', ?bad, Inr ''Artigo 3'']"
    by (simp add: fake_library_def sample_docs_def)
  have ps: "pages ?lib [Inr ''Artigo 1'', ?bad, Inr ''Artigo 3'']
              = [Inr ''Artigo 1''] @ ?bad # [Inr ''Artigo 3'']"
    by (simp add: fake_library_def)
  have ok: "map (extract_text ?lib) [Inr ''Artigo 1''] = map Inr [''Artigo 1'']"
    by (simp add: fake_library_def)
  have bad: "extract_text ?lib ?bad = Inl (Exception ''stream truncado'')"
    by (simp add: fake_library_def)
  from extract_text_from_pdf_all_or_nothing [OF o ps ok bad] show ?thesis by simp
qed

text \<open>
  C5. The extractor adds no source of variation of its own. Two runs in which the
  library answers alike for the path (the same outcome of opening, and for an opened
  document the same pages with the same outcome of extracting each) return the same
  string, and the entry point then writes the same output with the same exit status
  whenever the path exists in both runs or in neither.
\<close>

theorem extract_text_from_pdf_deterministic:
  assumes "PdfReader lib1 pdf_path = PdfReader lib2 pdf_path"
    and "\<forall>reader. PdfReader lib1 pdf_path = Inr reader \<longrightarrow>
           pages lib1 reader = pages lib2 reader \<and>
           (\<forall>page\<in>set (pages lib1 reader). extract_text lib1 page = extract_text lib2 page)"
    and "exists1 pdf_path = exists2 pdf_path"
  shows "extract_text_from_pdf lib1 pdf_path = extract_text_from_pdf lib2 pdf_path \<and>
         main codec exists1 lib1 (prog # pdf_path # rest) = main codec exists2 lib2 (prog # pdf_path # rest)"
proof -
  have "try_block lib1 pdf_path = try_block lib2 pdf_path"
  proof (cases "PdfReader lib1 pdf_path")
    case (Inl e)
    with assms(1) have "PdfReader lib2 pdf_path = Inl e" by simp
    with Inl show ?thesis by (simp add: try_block_def)
  next
    case (Inr reader)
    with assms(1) have opened2: "PdfReader lib2 pdf_path = Inr reader" by simp
    from Inr assms(2) have same: "pages lib1 reader = pages lib2 reader"
      and each: "\<And>page. page \<in> set (pages lib1 reader) \<Longrightarrow> extract_text lib1 page = extract_text lib2 page"
      by auto
    from extract_pages_cong [of "pages lib1 reader" "extract_text lib1" "extract_text lib2" "''''"] each
    have "extract_pages (extract_text lib1) (pages lib1 reader) ''''
            = extract_pages (extract_text lib2) (pages lib1 reader) ''''"
      by blast
    with Inr opened2 same show ?thesis by (simp add: try_block_def)
  qed
  then have eq: "extract_text_from_pdf lib1 pdf_path = extract_text_from_pdf lib2 pdf_path"
    by (simp add: extract_text_from_pdf_def)
  with assms(3) show ?thesis by (simp add: main_def)
qed

theorem extract_text_from_pdf_deterministic_witness:
  "extract_text_from_pdf (fake_library sample_docs) ''lei.pdf''
     = extract_text_from_pdf (fake_library ((''imagem.pdf'', [Inr ''Selo'']) # sample_docs)) ''lei.pdf'' \<and>
   main utf8_strict (fake_exists sample_files) (fake_library sample_docs) [''extract_pdf.py'', ''lei.pdf'']
     = main utf8_strict (fake_exists [''lei.pdf'']) (fake_library ((''imagem.pdf'', [Inr ''Selo'']) # sample_docs)) [''extract_pdf.py'', ''lei.pdf'']"
proof -
  let ?lib1 = "fake_library sample_docs"
  let ?lib2 = "fake_library ((''imagem.pdf'', [Inr ''Selo'']) # sample_docs)"
  have o: "PdfReader ?lib1 ''lei.pdf'' = PdfReader ?lib2 ''lei.pdf''"
    by (simp add: fake_library_def sample_docs_def)
  have p: "\<forall>reader. PdfReader ?lib1 ''lei.pdf'' = Inr reader \<longrightarrow>
             pages ?lib1 reader = pages ?lib2 reader \<and>
             (\<forall>page\<in>set (pages ?lib1 reader). extract_text ?lib1 page = extract_text ?lib2 page)"
    by (simp add: fake_library_def)
  have x: "fake_exists sample_files ''lei.pdf'' = fake_exists [''lei.pdf''] ''lei.pdf''"
    by (simp add: fake_exists_def sample_files_def)
  from extract_text_from_pdf_deterministic
         [of ?lib1 "''lei.pdf''" ?lib2 "fake_exists sample_files" "fake_exists [''lei.pdf'']"
             utf8_strict "''extract_pdf.py''" "[]"] o p x
  show ?thesis by blast
qed

section \<open>The entry point\<close>

text \<open>
  The extraction branch of the script: once the extractor has returned \<open>s\<close>, the run
  ends with status 0 and \<open>s\<close> and a newline on standard output when the stream encodes
  \<open>s\<close>, and with the uncaught \<open>UnicodeEncodeError\<close> of \<open>print\<close> when it does not.
\<close>

lemma main_extraction_branch:
  assumes "2 \<le> length argv"
    and "path_exists (argv ! 1)"
    and "extract_text_from_pdf lib (argv ! 1) = Inr s"
  shows "main codec path_exists lib argv =
           (if encodable codec s then sys_exit 0 (s @ ''\<newline>'') [argv ! 1]
            else uncaught (Exception ''UnicodeEncodeError'') '''' [argv ! 1])"
  using assms by (simp add: main_def print_def)

lemma encodable_ascii: "isascii s \<Longrightarrow> encodable codec s"
  by (simp add: encodable_def)

text \<open>
  C6. With no path argument the run writes the usage line to standard output, exits with
  status 1, and never calls the extractor.
\<close>

theorem main_usage:
  assumes "length argv < 2"
  shows "main codec path_exists lib argv =
           \<lparr>stdout = ''Uso: python extract_pdf.py <caminho_do_pdf>\<newline>'',
            exit_status = 1, extractor_calls = []\<rparr>"
proof -
  have "isascii ''Uso: python extract_pdf.py <caminho_do_pdf>''"
    by (simp add: isascii_def)
  then have "encodable codec ''Uso: python extract_pdf.py <caminho_do_pdf>''"
    by (rule encodable_ascii)
  with assms show ?thesis
    by (simp add: main_def print_def sys_exit_def)
qed

theorem main_usage_witness:
  "main utf8_strict (fake_exists sample_files) (fake_library sample_docs) [''extract_pdf.py''] =
     \<lparr>stdout = ''Uso: python extract_pdf.py <caminho_do_pdf>\<newline>'',
      exit_status = 1, extractor_calls = []\<rparr>"
proof -
  have short: "length [''extract_pdf.py''] < 2" by simp
  from main_usage [OF short] show ?thesis .
qed

text \<open>
  C7 as first stated has the message with the path written for every path that does not
  exist. The \<open>print\<close> of that message stands under no handler: for a path the stream
  cannot encode it raises, nothing reaches standard output, and the run ends with
  status 1 by the uncaught exception.
\<close>

theorem main_file_not_found_counterexample:
  "\<not> fake_exists sample_files surrogate_path \<and>
   main utf8_strict (fake_exists sample_files) (fake_library sample_docs)
     [''extract_pdf.py'', surrogate_path] =
     \<lparr>stdout = '''', exit_status = 1, extractor_calls = []\<rparr>"
  by (simp add: main_def print_def encodable_def isascii_def uncaught_def
        fake_exists_def sample_files_def surrogate_path_def)

text \<open>
  C7, amended. When the path argument names nothing that exists, the run exits with
  status 1 and never calls the extractor; when standard output can encode the message,
  it writes the line \<open>Arquivo n\<tilde>ao encontrado: \<close> followed by the path exactly as
  given, and otherwise it writes nothing.
\<close>

theorem main_file_not_found:
  assumes "2 \<le> length argv"
    and "\<not> path_exists (argv ! 1)"
  shows "main codec path_exists lib argv =
           \<lparr>stdout =
              (if encodable codec (''Arquivo n'' @ [CHR 0xC3, CHR 0xA3] @ ''o encontrado: '' @ argv ! 1)
               then ''Arquivo n'' @ [CHR 0xC3, CHR 0xA3] @ ''o encontrado: '' @ argv ! 1 @ ''\<newline>''
               else ''''),
            exit_status = 1, extractor_calls = []\<rparr>"
  using assms by (simp add: main_def print_def sys_exit_def uncaught_def)

theorem main_file_not_found_witness:
  "main utf8_strict (fake_exists sample_files) (fake_library sample_docs)
     [''extract_pdf.py'', ''perdido.pdf''] =
     \<lparr>stdout = ''Arquivo n'' @ [CHR 0xC3, CHR 0xA3] @ ''o encontrado: perdido.pdf\<newline>'',
      exit_status = 1, extractor_calls = []\<rparr>"
proof -
  have given: "2 \<le> length [''extract_pdf.py'', ''perdido.pdf'']" by simp
  have missing: "\<not> fake_exists sample_files ([''extract_pdf.py'', ''perdido.pdf''] ! 1)"
    by (simp add: fake_exists_def sample_files_def)
  have encoded: "encodable utf8_strict
      (''Arquivo n'' @ [CHR 0xC3, CHR 0xA3] @ ''o encontrado: '' @ [''extract_pdf.py'', ''perdido.pdf''] ! 1)"
    by (simp add: encodable_def)
  from main_file_not_found
         [of "[''extract_pdf.py'', ''perdido.pdf'']" "fake_exists sample_files" utf8_strict
             "fake_library sample_docs"]
       given missing encoded
  show ?thesis by simp
qed

text \<open>
  C3 as first stated gives status 0 for every argument that names something that exists.
  The \<open>print\<close> of the extractor's result stands under no handler: a one-page document
  whose text is a lone surrogate is extracted without failure, \<open>print\<close> raises on a
  strict UTF-8 stream, nothing is written and the status is 1.
\<close>

theorem main_exit_status_counterexample:
  "fake_exists [''selo.pdf''] ''selo.pdf'' \<and>
   extract_text_from_pdf (fake_library surrogate_docs) ''selo.pdf''
     = Inr [CHR 0xED, CHR 0xA0, CHR 0x80, CHR 0x0A] \<and>
   exit_status (main utf8_strict (fake_exists [''selo.pdf'']) (fake_library surrogate_docs)
                  [''extract_pdf.py'', ''selo.pdf'']) = 1 \<and>
   stdout (main utf8_strict (fake_exists [''selo.pdf'']) (fake_library surrogate_docs)
             [''extract_pdf.py'', ''selo.pdf'']) = ''''"
  by (simp add: main_def print_def encodable_def isascii_def uncaught_def
        extract_text_from_pdf_def try_block_def fake_library_def surrogate_docs_def
        fake_exists_def)

text \<open>
  C3, amended. When a path argument is given and names something that exists, and
  standard output can encode what the extractor produced, the run exits with status 0
  and standard output holds it: the concatenated text when the \<open>try\<close> block ran
  through, the diagnostic string when it raised. A failed extraction does not change
  the exit status.
\<close>

theorem main_exit_status_0:
  assumes "2 \<le> length argv"
    and "path_exists (argv ! 1)"
    and "encodable codec
           (case try_block lib (argv ! 1) of
              Inr text \<Rightarrow> text
            | Inl e \<Rightarrow> ''Erro ao ler PDF: '' @ str e)"
  shows "exit_status (main codec path_exists lib argv) = 0 \<and>
         stdout (main codec path_exists lib argv) =
           (case try_block lib (argv ! 1) of
              Inr text \<Rightarrow> text
            | Inl e \<Rightarrow> ''Erro ao ler PDF: '' @ str e) @ ''\<newline>''"
proof (cases "try_block lib (argv ! 1)")
  case (Inl e)
  then have "extract_text_from_pdf lib (argv ! 1) = Inr (''Erro ao ler PDF: '' @ str e)"
    by (simp add: extract_text_from_pdf_def)
  with main_extraction_branch [of argv path_exists lib "''Erro ao ler PDF: '' @ str e" codec]
    assms Inl
  show ?thesis by (simp add: sys_exit_def)
next
  case (Inr t)
  then have "extract_text_from_pdf lib (argv ! 1) = Inr t"
    by (simp add: extract_text_from_pdf_def)
  with main_extraction_branch [of argv path_exists lib t codec] assms Inr
  show ?thesis by (simp add: sys_exit_def)
qed

theorem main_exit_status_0_witness:
  "exit_status (main utf8_strict (fake_exists sample_files) (fake_library sample_docs)
                  [''extract_pdf.py'', ''notas.txt'']) = 0 \<and>
   stdout (main utf8_strict (fake_exists sample_files) (fake_library sample_docs)
             [''extract_pdf.py'', ''notas.txt'']) = ''Erro ao ler PDF: EOF marker not found\<newline>''"
proof -
  have given: "2 \<le> length [''extract_pdf.py'', ''notas.txt'']" by simp
  have found: "fake_exists sample_files ([''extract_pdf.py'', ''notas.txt''] ! 1)"
    by (simp add: fake_exists_def sample_files_def)
  have raised: "try_block (fake_library sample_docs) ([''extract_pdf.py'', ''notas.txt''] ! 1)
                  = Inl (Exception ''EOF marker not found'')"
    by (simp add: try_block_def fake_library_def sample_docs_def)
  have encoded: "encodable utf8_strict
      (case try_block (fake_library sample_docs) ([''extract_pdf.py'', ''notas.txt''] ! 1) of
         Inr text \<Rightarrow> text
       | Inl e \<Rightarrow> ''Erro ao ler PDF: '' @ str e)"
    by (simp only: raised) (simp add: encodable_def)
  from main_exit_status_0
         [of "[''extract_pdf.py'', ''notas.txt'']" "fake_exists sample_files" utf8_strict
             "fake_library sample_docs"]
       given found encoded raised
  show ?thesis by simp
qed

text \<open>
  C9 as first stated promises two closing newlines for every document that was extracted
  without failure. A document with no page is extracted without failure, the extractor
  returns the empty string, and the output is the single newline of \<open>print\<close>. A one-page
  document whose text is a lone surrogate is extracted without failure too; on a strict
  UTF-8 stream \<open>print\<close> raises and the output is empty.
\<close>

theorem main_zero_pages_counterexample:
  "extract_text_from_pdf (fake_library sample_docs) ''vazio.pdf'' = Inr '''' \<and>
   stdout (main utf8_strict (fake_exists sample_files) (fake_library sample_docs)
             [''extract_pdf.py'', ''vazio.pdf'']) = ''\<newline>'' \<and>
   \<not> suffix ''\<newline>\<newline>''
     (stdout (main utf8_strict (fake_exists sample_files) (fake_library sample_docs)
                [''extract_pdf.py'', ''vazio.pdf''])) \<and>
   extract_text_from_pdf (fake_library surrogate_docs) ''selo.pdf''
     = Inr [CHR 0xED, CHR 0xA0, CHR 0x80, CHR 0x0A] \<and>
   \<not> suffix ''\<newline>\<newline>''
     (stdout (main utf8_strict (fake_exists [''selo.pdf'']) (fake_library surrogate_docs)
                [''extract_pdf.py'', ''selo.pdf'']))"
  by (simp add: main_def print_def encodable_def isascii_def sys_exit_def uncaught_def
        extract_text_from_pdf_def try_block_def fake_library_def sample_docs_def
        surrogate_docs_def fake_exists_def sample_files_def suffix_to_prefix)

text \<open>
  C9, amended. On the extraction path, when standard output can encode the string the
  extractor returned, standard output is that string followed by the one newline that
  \<open>print\<close> appends, be it the text or a diagnostic string. When moreover the document
  opened, every page gave its text and there is at least one page, the output ends in
  two newlines.
\<close>

theorem main_prints_result_and_newline:
  assumes "2 \<le> length argv"
    and "path_exists (argv ! 1)"
    and "extract_text_from_pdf lib (argv ! 1) = Inr s"
    and "encodable codec s"
  shows "stdout (main codec path_exists lib argv) = s @ ''\<newline>'' \<and>
         (\<forall>reader ts. PdfReader lib (argv ! 1) = Inr reader \<longrightarrow>
              map (extract_text lib) (pages lib reader) = map Inr ts \<longrightarrow>
              pages lib reader \<noteq> [] \<longrightarrow>
              suffix ''\<newline>\<newline>'' (stdout (main codec path_exists lib argv)))"
proof (intro conjI allI impI)
  from main_extraction_branch [of argv path_exists lib s codec] assms
  show printed: "stdout (main codec path_exists lib argv) = s @ ''\<newline>''"
    by (simp add: sys_exit_def)
  fix reader ts
  assume opened: "PdfReader lib (argv ! 1) = Inr reader"
    and texts: "map (extract_text lib) (pages lib reader) = map Inr ts"
    and some: "pages lib reader \<noteq> []"
  from texts some have "ts \<noteq> []" by auto
  then obtain front t where ts: "ts = front @ [t]"
    by (cases ts rule: rev_cases) auto
  from opened texts extract_pages_all_ok [of "extract_text lib" "pages lib reader" ts "''''"]
  have "extract_text_from_pdf lib (argv ! 1) = Inr (concat (map (\<lambda>t. t @ ''\<newline>'') ts))"
    by (simp add: extract_text_from_pdf_def try_block_def)
  with assms(3) have "s = concat (map (\<lambda>t. t @ ''\<newline>'') ts)" by simp
  with printed
  have "stdout (main codec path_exists lib argv)
          = (concat (map (\<lambda>t. t @ ''\<newline>'') front) @ t) @ ''\<newline>\<newline>''"
    by (simp add: ts)
  then show "suffix ''\<newline>\<newline>'' (stdout (main codec path_exists lib argv))"
    unfolding suffix_def by blast
qed

theorem main_prints_result_and_newline_witness:
  "stdout (main utf8_strict (fake_exists sample_files) (fake_library sample_docs)
             [''extract_pdf.py'', ''lei.pdf''])
     = ''Artigo 1\<newline>\<newline>Artigo 2\<newline>\<newline>'' \<and>
   suffix ''\<newline>\<newline>''
     (stdout (main utf8_strict (fake_exists sample_files) (fake_library sample_docs)
                [''extract_pdf.py'', ''lei.pdf'']))"
proof -
  let ?lib = "fake_library sample_docs"
  let ?argv = "[''extract_pdf.py'', ''lei.pdf'']"
  let ?doc = "[Inr ''Artigo 1'', Inr '''', Inr ''Artigo 2''] :: (py_exception + string) list"
  let ?s = "''Artigo 1\<newline>\<newline>Artigo 2\<newline>''"
  let ?run = "main utf8_strict (fake_exists sample_files) ?lib ?argv"
  have given: "2 \<le> length ?argv" by simp
  have found: "fake_exists sample_files (?argv ! 1)"
    by (simp add: fake_exists_def sample_files_def)
  have opened: "PdfReader ?lib (?argv ! 1) = Inr ?doc"
    by (simp add: fake_library_def sample_docs_def)
  have texts: "map (extract_text ?lib) (pages ?lib ?doc) = map Inr [''Artigo 1'', '''', ''Artigo 2'']"
    by (simp add: fake_library_def)
  have some: "pages ?lib ?doc \<noteq> []"
    by (simp add: fake_library_def)
  have returned: "extract_text_from_pdf ?lib (?argv ! 1) = Inr ?s"
    by (simp add: extract_text_from_pdf_def try_block_def fake_library_def sample_docs_def)
  have encoded: "encodable utf8_strict ?s"
    by (simp add: encodable_def isascii_def)
  from main_prints_result_and_newline [of ?argv "fake_exists sample_files" ?lib ?s utf8_strict]
    given found returned encoded
  have out: "stdout ?run = ?s @ ''\<newline>''"
    and ends: "\<forall>reader ts. PdfReader ?lib (?argv ! 1) = Inr reader \<longrightarrow>
                 map (extract_text ?lib) (pages ?lib reader) = map Inr ts \<longrightarrow>
                 pages ?lib reader \<noteq> [] \<longrightarrow>
                 suffix ''\<newline>\<newline>'' (stdout ?run)"
    by blast+
  from ends opened texts some have "suffix ''\<newline>\<newline>'' (stdout ?run)"
    by blast
  moreover from out have "stdout ?run = ''Artigo 1\<newline>\<newline>Artigo 2\<newline>\<newline>''"
    by simp
  ultimately show ?thesis by blast
qed

text \<open>
  C8 as first stated lets extraction happen only when exactly one path argument is given.
  The script tests \<open>len(sys.argv) < 2\<close> and nothing more: with two arguments after the
  script's name it calls the extractor on the first.
\<close>

theorem main_two_arguments_counterexample:
  "length (tl [''extract_pdf.py'', ''lei.pdf'', ''imagem.pdf'']) = 2 \<and>
   extractor_calls (main utf8_strict (fake_exists sample_files) (fake_library sample_docs)
                      [''extract_pdf.py'', ''lei.pdf'', ''imagem.pdf'']) = [''lei.pdf'']"
  by (simp add: main_def print_def sys_exit_def uncaught_def extract_text_from_pdf_def
        try_block_def fake_library_def sample_docs_def fake_exists_def sample_files_def)

text \<open>
  C8, amended. The entry point requires at least one argument after the script's name:
  the extractor is called only when one is given, it is called once, on the first
  argument, and the arguments after the first change nothing in the run.
\<close>

theorem main_uses_first_argument_only:
  "(extractor_calls (main codec path_exists lib argv) \<noteq> [] \<longrightarrow>
      1 \<le> length (tl argv) \<and> extractor_calls (main codec path_exists lib argv) = [argv ! 1]) \<and>
   main codec path_exists lib (prog # pdf_path # rest) = main codec path_exists lib [prog, pdf_path]"
proof
  show "extractor_calls (main codec path_exists lib argv) \<noteq> [] \<longrightarrow>
      1 \<le> length (tl argv) \<and> extractor_calls (main codec path_exists lib argv) = [argv ! 1]"
  proof (cases "length argv < 2")
    case True
    then show ?thesis
      by (simp add: main_def sys_exit_def uncaught_def split: sum.splits)
  next
    case False
    then have "1 \<le> length (tl argv)" by simp
    moreover from False have "extractor_calls (main codec path_exists lib argv) \<noteq> [] \<longrightarrow>
        extractor_calls (main codec path_exists lib argv) = [argv ! 1]"
      by (simp add: main_def Let_def sys_exit_def uncaught_def split: sum.splits)
    ultimately show ?thesis by simp
  qed
next
  show "main codec path_exists lib (prog # pdf_path # rest) = main codec path_exists lib [prog, pdf_path]"
    by (simp add: main_def)
qed

theorem main_uses_first_argument_only_witness:
  "1 \<le> length (tl [''extract_pdf.py'', ''lei.pdf'', ''imagem.pdf'']) \<and>
   extractor_calls (main utf8_strict (fake_exists sample_files) (fake_library sample_docs)
                      [''extract_pdf.py'', ''lei.pdf'', ''imagem.pdf'']) = [''lei.pdf''] \<and>
   main utf8_strict (fake_exists sample_files) (fake_library sample_docs)
       [''extract_pdf.py'', ''lei.pdf'', ''imagem.pdf'']
     = main utf8_strict (fake_exists sample_files) (fake_library sample_docs)
         [''extract_pdf.py'', ''lei.pdf'']"
proof -
  let ?argv = "[''extract_pdf.py'', ''lei.pdf'', ''imagem.pdf'']"
  let ?run = "main utf8_strict (fake_exists sample_files) (fake_library sample_docs) ?argv"
  have called: "extractor_calls ?run \<noteq> []"
    by (simp add: main_def print_def sys_exit_def uncaught_def extract_text_from_pdf_def
          try_block_def fake_library_def sample_docs_def fake_exists_def sample_files_def)
  from main_uses_first_argument_only
         [of utf8_strict "fake_exists sample_files" "fake_library sample_docs" ?argv
             "''extract_pdf.py''" "''lei.pdf''" "[''imagem.pdf'']"]
  have first: "extractor_calls ?run \<noteq> [] \<longrightarrow>
                 1 \<le> length (tl ?argv) \<and> extractor_calls ?run = [?argv ! 1]"
    and ignored: "?run = main utf8_strict (fake_exists sample_files) (fake_library sample_docs)
                           [''extract_pdf.py'', ''lei.pdf'']"
    by blast+
  from first called have "1 \<le> length (tl ?argv)" and "extractor_calls ?run = [''lei.pdf'']"
    by simp_all
  with ignored show ?thesis by blast
qed

end
